theory Spec2Isabelle
  imports Complex_Main
begin

section \<open>Python values\<close>

text \<open>
  What \<open>request.get_json()\<close> hands to the handler is a Python object built by the JSON
  parser: \<open>None\<close>, a \<open>bool\<close>, an \<open>int\<close>, a \<open>float\<close>, a \<open>str\<close>, a \<open>list\<close> or a \<open>dict\<close>.
  A \<open>dict\<close> is kept as an association list read with \<open>map_of\<close>. Python's parser also
  accepts the literals \<open>NaN\<close>, \<open>Infinity\<close> and \<open>-Infinity\<close>, which are not JSON, and
  returns the corresponding \<open>float\<close>; only the test against zero is used on a \<open>float\<close>.
\<close>

datatype pyfloat = Finite real | Infinity | NegInfinity | NaN

datatype json =
    JNull
  | JBool bool
  | JInt int
  | JFloat pyfloat
  | JStr string
  | JArr "json list"
  | JObj "(string \<times> json) list"

text \<open>Python's truth value of such an object, as tested by \<open>not data\<close>.\<close>

fun truthy :: "json \<Rightarrow> bool" where
  "truthy JNull = False"
| "truthy (JBool b) = b"
| "truthy (JInt n) = (n \<noteq> 0)"
| "truthy (JFloat x) = (x \<noteq> Finite 0)"
| "truthy (JStr s) = (s \<noteq> [])"
| "truthy (JArr xs) = (xs \<noteq> [])"
| "truthy (JObj kvs) = (kvs \<noteq> [])"

text \<open>
  \<open>os.getenv(..)\<close> and \<open>request.headers.get(..)\<close> return a \<open>str\<close> or \<open>None\<close>;
  \<open>not x\<close> holds for \<open>None\<close> and for the empty string.
\<close>

fun truthy_str :: "string option \<Rightarrow> bool" where
  "truthy_str None = False"
| "truthy_str (Some s) = (s \<noteq> [])"

fun type_name :: "json \<Rightarrow> string" where
  "type_name JNull = ''NoneType''"
| "type_name (JBool b) = ''bool''"
| "type_name (JInt n) = ''int''"
| "type_name (JFloat x) = ''float''"
| "type_name (JStr s) = ''str''"
| "type_name (JArr xs) = ''list''"
| "type_name (JObj kvs) = ''dict''"

text \<open>
  The exceptions that can travel through the module. \<open>BadRequest\<close> is the HTTP exception
  that \<open>request.get_json()\<close> raises on a body it cannot parse, \<open>ArgumentError\<close> the one
  \<open>create_engine\<close> raises on an argument that is no URL, \<open>DatabaseError\<close> whatever the
  driver raises, with its message, \<open>InvalidRequestError\<close> what a session raises when it
  is used while its transaction has failed and has not been rolled back.
\<close>

datatype exn =
    BadRequest
  | ArgumentError
  | AttributeError string
  | TypeError string
  | DatabaseError string
  | InvalidRequestError

fun str_exn :: "exn \<Rightarrow> string" where
  "str_exn BadRequest = ''400 Bad Request''"
| "str_exn ArgumentError = ''Expected string or URL object, got None''"
| "str_exn (AttributeError m) = m"
| "str_exn (TypeError m) = m"
| "str_exn (DatabaseError m) = m"
| "str_exn InvalidRequestError =
     ''This Session's transaction has been rolled back due to a previous exception during flush.''"

definition quoted :: "string \<Rightarrow> string" where
  "quoted s = CHR 0x27 # s @ [CHR 0x27]"

text \<open>
  \<open>data.get(k)\<close>: a method of \<open>dict\<close> only, giving \<open>None\<close> for an absent key; every
  other object has no such attribute.
\<close>

definition dict_get :: "(string \<times> json) list \<Rightarrow> string \<Rightarrow> json" where
  "dict_get kvs k = (case map_of kvs k of None \<Rightarrow> JNull | Some v \<Rightarrow> v)"

fun get :: "json \<Rightarrow> string \<Rightarrow> exn + json" where
  "get (JObj kvs) k = Inr (dict_get kvs k)"
| "get v k = Inl (AttributeError (quoted (type_name v) @ '' object has no attribute '' @ quoted ''get''))"

text \<open>
  \<open>x[:50]\<close>, evaluated inside the success message: a \<open>str\<close> and a \<open>list\<close> can be sliced,
  a number or a \<open>bool\<close> is not subscriptable, a \<open>dict\<close> rejects the slice as a key
  (a \<open>TypeError\<close> up to Python 3.11). Only whether it raises matters to the handler.
\<close>

fun slice50 :: "json \<Rightarrow> exn + json" where
  "slice50 (JStr s) = Inr (JStr (take 50 s))"
| "slice50 (JArr xs) = Inr (JArr (take 50 xs))"
| "slice50 (JObj kvs) = Inl (TypeError (''unhashable type: '' @ quoted ''slice''))"
| "slice50 v = Inl (TypeError (quoted (type_name v) @ '' object is not subscriptable''))"

section \<open>The data model\<close>

text \<open>
  \<open>class Interaction(Base)\<close>. The attributes hold the Python objects given to the
  constructor. \<open>id\<close> and \<open>timestamp\<close> are \<open>None\<close> until given or until the column
  default fills them in at flush time.
\<close>

record interaction =
  id' :: "string option"
  user_id :: json
  user_message :: json
  gpt_response :: json
  conversation_id :: json
  timestamp :: "nat option"

section \<open>The environment\<close>

text \<open>
  Everything the module reads from outside: the two environment variables, the clock
  (\<open>datetime.utcnow()\<close>), the value \<open>uuid.uuid4()\<close> returns when the \<open>id\<close> default is
  called, and the behaviour of the database library: which connection strings
  \<open>create_engine\<close> accepts, whether the server can be reached for \<open>create_all\<close>, and
  whether the driver refuses an INSERT for a reason of its own (server unreachable, a
  value it cannot bind), with the message of the exception it raises then.
\<close>

record env =
  API_KEY :: "string option"
  DATABASE_URL :: "string option"
  utcnow :: nat
  uuid4 :: string
  url_ok :: "string \<Rightarrow> bool"
  connect_error :: "string option"
  db_fault :: "interaction \<Rightarrow> string option"
  constraint_msg :: string

section \<open>Startup\<close>

record engine =
  url :: string

text \<open>
  \<open>create_engine(DATABASE_URL)\<close>: the argument must be a connection string that parses;
  \<open>None\<close> is rejected with \<open>ArgumentError\<close>.
\<close>

definition create_engine :: "env \<Rightarrow> string option \<Rightarrow> exn + engine" where
  "create_engine e u =
     (case u of
        None \<Rightarrow> Inl ArgumentError
      | Some s \<Rightarrow> if url_ok e s then Inr \<lparr>url = s\<rparr> else Inl ArgumentError)"

text \<open>\<open>Base.metadata.create_all(engine)\<close>: connects, and creates the table if it is absent.\<close>

definition create_all :: "env \<Rightarrow> engine \<Rightarrow> exn + unit" where
  "create_all e eng =
     (case connect_error e of None \<Rightarrow> Inr () | Some m \<Rightarrow> Inl (DatabaseError m))"

text \<open>
  The module body of \<open>app.py\<close> up to the route definitions: the lines printed, and
  either the exception that ends the import or the engine the handlers will use.
  Only \<open>create_all\<close> stands inside a \<open>try\<close>.
\<close>

definition startup :: "env \<Rightarrow> string list \<times> (exn + engine)" where
  "startup e =
     (let printed =
            (if \<not> truthy_str (DATABASE_URL e)
             then [''WARNING: DATABASE_URL environment variable not set. Database operations will fail.'']
             else [])
      in case create_engine e (DATABASE_URL e) of
           Inl ex \<Rightarrow> (printed, Inl ex)
         | Inr eng \<Rightarrow>
             (case create_all e eng of
                Inr u \<Rightarrow>
                  (printed @ [''Database table '' @ quoted ''interactions'' @ '' checked/created successfully.''],
                   Inr eng)
              | Inl ex \<Rightarrow>
                  (printed @ [''ERROR: Could not connect to database or create table: '' @ str_exn ex],
                   Inr eng)))"

section \<open>The table and the session\<close>

text \<open>
  The table \<open>interactions\<close> is the list of its committed rows, oldest first. An INSERT
  applies the column defaults, then the constraints of the schema: \<open>user_message\<close> and
  \<open>gpt_response\<close> are \<open>nullable=False\<close>, \<open>id\<close> is the primary key.
\<close>

definition apply_defaults :: "env \<Rightarrow> interaction \<Rightarrow> interaction" where
  "apply_defaults e x =
     x\<lparr>id' := (case id' x of None \<Rightarrow> Some (uuid4 e) | Some i \<Rightarrow> Some i),
       timestamp := (case timestamp x of None \<Rightarrow> Some (utcnow e) | Some t \<Rightarrow> Some t)\<rparr>"

definition insert_row :: "env \<Rightarrow> interaction list \<Rightarrow> interaction \<Rightarrow> exn + interaction list" where
  "insert_row e tbl x =
     (let row = apply_defaults e x in
      if user_message row = JNull \<or> gpt_response row = JNull then Inl (DatabaseError (constraint_msg e))
      else if id' row \<in> set (map id' tbl) then Inl (DatabaseError (constraint_msg e))
      else case db_fault e row of
             Some m \<Rightarrow> Inl (DatabaseError m)
           | None \<Rightarrow> Inr (tbl @ [row]))"

fun flush :: "env \<Rightarrow> interaction list \<Rightarrow> interaction list \<Rightarrow> exn + interaction list" where
  "flush e tbl [] = Inr tbl"
| "flush e tbl (x # xs) =
     (case insert_row e tbl x of Inl ex \<Rightarrow> Inl ex | Inr tbl' \<Rightarrow> flush e tbl' xs)"

text \<open>
  A session: the objects added and not yet written (\<open>session.new\<close>), whether its
  transaction is usable (\<open>session.is_active\<close>), and whether it has been closed.
  \<open>commit\<close> writes the pending objects in one transaction: all of them or, when one
  INSERT raises, none. After such a failure the database has discarded the
  transaction, the pending objects are gone from the session, and the session is
  inactive: it refuses further work until \<open>rollback\<close> ends the failed transaction.
  \<open>close\<close> ends whatever transaction there is and releases the connection.
  Each operation yields the state of the session after it.
\<close>

record session =
  new :: "interaction list"
  is_active :: bool
  closed :: bool

definition Session :: session where
  "Session = \<lparr>new = [], is_active = True, closed = False\<rparr>"

definition session_add :: "session \<Rightarrow> interaction \<Rightarrow> session" where
  "session_add s x = s\<lparr>new := new s @ [x]\<rparr>"

definition session_commit :: "env \<Rightarrow> interaction list \<Rightarrow> session \<Rightarrow> (exn + interaction list) \<times> session" where
  "session_commit e tbl s =
     (if \<not> is_active s then (Inl InvalidRequestError, s)
      else case flush e tbl (new s) of
             Inl ex \<Rightarrow> (Inl ex, s\<lparr>new := [], is_active := False\<rparr>)
           | Inr tbl' \<Rightarrow> (Inr tbl', s\<lparr>new := []\<rparr>))"

definition session_rollback :: "session \<Rightarrow> session" where
  "session_rollback s = s\<lparr>new := [], is_active := True\<rparr>"

definition session_close :: "session \<Rightarrow> session" where
  "session_close s = s\<lparr>new := [], is_active := True, closed := True\<rparr>"

section \<open>Requests and responses\<close>

text \<open>
  A request as the handler reads it: \<open>request.headers.get('X-API-KEY')\<close> and the body,
  sent as \<open>application/json\<close>. \<open>Unparsable\<close> is a body that Python's parser rejects;
  \<open>JsonBody v\<close> is a body it accepts, \<open>v\<close> being the object it returns. A body can be
  accepted without being valid JSON: \<open>NaN\<close> gives \<open>JsonBody (JFloat NaN)\<close>.
\<close>

datatype body = JsonBody json | Unparsable

record request =
  X_API_KEY :: "string option"
  body :: body

text \<open>\<open>request.get_json()\<close> raises \<open>BadRequest\<close> on a body that the parser rejects.\<close>

definition get_json :: "request \<Rightarrow> exn + json" where
  "get_json req = (case body req of Unparsable \<Rightarrow> Inl BadRequest | JsonBody v \<Rightarrow> Inr v)"

text \<open>
  A response is a status and a payload: the JSON document given to \<open>jsonify\<close>, or the
  error page the framework writes by itself for an exception no handler caught.
\<close>

datatype payload = Json json | ErrorPage

record response =
  status :: nat
  payload :: payload

definition jsonify :: "(string \<times> json) list \<Rightarrow> nat \<Rightarrow> response" where
  "jsonify kvs code = \<lparr>status = code, payload = Json (JObj kvs)\<rparr>"

text \<open>
  What one call of a view function leaves behind: the response it returned or the
  exception it raised, the table afterwards, and the states the session it opened went
  through, one after each statement that touches it, oldest first (empty when the call
  opened no session).
\<close>

record outcome =
  result :: "exn + response"
  table :: "interaction list"
  sess :: "session list"

text \<open>
  The application registers no error handler, so the framework answers an uncaught
  HTTP exception with that exception's status and any other uncaught exception with
  500, both with its own error page.
\<close>

fun flask_response :: "exn + response \<Rightarrow> response" where
  "flask_response (Inr r) = r"
| "flask_response (Inl BadRequest) = \<lparr>status = 400, payload = ErrorPage\<rparr>"
| "flask_response (Inl ex) = \<lparr>status = 500, payload = ErrorPage\<rparr>"

section \<open>POST /log\_interaction\<close>

text \<open>
  Step 4 of the handler, lines 97 to 116. \<open>new_interaction\<close> is the object built at
  lines 99 to 105, \<open>try_block\<close> the body of the \<open>try\<close>: build the object, add, commit,
  format the success message (which slices both texts), return 200. It yields the
  exception raised or the response, the table at that point, and the session after
  \<open>add\<close> and after \<open>commit\<close>.
\<close>

definition new_interaction :: "env \<Rightarrow> json \<Rightarrow> json \<Rightarrow> json \<Rightarrow> json \<Rightarrow> interaction" where
  "new_interaction e uid um gr cid =
     \<lparr>id' = None, user_id = uid, user_message = um, gpt_response = gr,
      conversation_id = cid, timestamp = Some (utcnow e)\<rparr>"

definition try_block ::
  "env \<Rightarrow> interaction list \<Rightarrow> session \<Rightarrow> json \<Rightarrow> json \<Rightarrow> json \<Rightarrow> json
     \<Rightarrow> (exn + response) \<times> interaction list \<times> session \<times> session" where
  "try_block e tbl s uid um gr cid =
     (let s1 = session_add s (new_interaction e uid um gr cid)
      in case session_commit e tbl s1 of
           (Inl ex, s2) \<Rightarrow> (Inl ex, tbl, s1, s2)
         | (Inr tbl', s2) \<Rightarrow>
             (case slice50 um of
                Inl ex \<Rightarrow> (Inl ex, tbl', s1, s2)
              | Inr a \<Rightarrow>
                  (case slice50 gr of
                     Inl ex \<Rightarrow> (Inl ex, tbl', s1, s2)
                   | Inr b \<Rightarrow>
                       (Inr (jsonify [(''status'', JStr ''success''),
                                      (''message'', JStr ''Interaction logged successfully'')] 200),
                        tbl', s1, s2))))"

text \<open>
  \<open>session = Session()\<close>, the \<open>try\<close>, \<open>except Exception\<close> (rollback, then 500 with the
  exception's text) and \<open>finally\<close> (close). The response of the \<open>except\<close> branch is built
  after the rollback and before the close.
\<close>

definition save :: "env \<Rightarrow> interaction list \<Rightarrow> json \<Rightarrow> json \<Rightarrow> json \<Rightarrow> json \<Rightarrow> outcome" where
  "save e tbl uid um gr cid =
     (let s0 = Session in
      case try_block e tbl s0 uid um gr cid of
        (Inr r, tbl', s1, s2) \<Rightarrow>
          \<lparr>result = Inr r, table = tbl', sess = [s0, s1, s2, session_close s2]\<rparr>
      | (Inl ex, tbl', s1, s2) \<Rightarrow>
          (let s3 = session_rollback s2 in
           \<lparr>result = Inr (jsonify [(''error'', JStr (''Failed to log interaction: '' @ str_exn ex))] 500),
            table = tbl',
            sess = [s0, s1, s2, s3, session_close s3]\<rparr>))"

text \<open>
  Steps 2 and 3, lines 81 to 94, then step 4. Nothing here stands inside a \<open>try\<close>.
  \<open>um\<close>, \<open>gr\<close>, \<open>uid\<close> and \<open>cid\<close> are the locals \<open>user_message\<close>, \<open>gpt_response\<close>,
  \<open>user_id\<close> and \<open>conversation_id\<close>.
\<close>

definition parse_and_save :: "env \<Rightarrow> request \<Rightarrow> interaction list \<Rightarrow> outcome" where
  "parse_and_save e req tbl =
     (case get_json req of
        Inl ex \<Rightarrow> \<lparr>result = Inl ex, table = tbl, sess = []\<rparr>
      | Inr data \<Rightarrow>
          if \<not> truthy data
          then \<lparr>result = Inr (jsonify [(''error'', JStr ''No JSON data provided'')] 400),
                table = tbl, sess = []\<rparr>
          else
            (case get data ''userMessage'' of
               Inl ex \<Rightarrow> \<lparr>result = Inl ex, table = tbl, sess = []\<rparr>
             | Inr um \<Rightarrow>
            (case get data ''gptResponse'' of
               Inl ex \<Rightarrow> \<lparr>result = Inl ex, table = tbl, sess = []\<rparr>
             | Inr gr \<Rightarrow>
            (case get data ''userId'' of
               Inl ex \<Rightarrow> \<lparr>result = Inl ex, table = tbl, sess = []\<rparr>
             | Inr uid \<Rightarrow>
            (case get data ''conversationId'' of
               Inl ex \<Rightarrow> \<lparr>result = Inl ex, table = tbl, sess = []\<rparr>
             | Inr cid \<Rightarrow>
                 if \<not> truthy um \<or> \<not> truthy gr
                 then \<lparr>result = Inr (jsonify [(''error'',
                          JStr (quoted ''userMessage'' @ '' and '' @ quoted ''gptResponse'' @ '' are required''))] 400),
                       table = tbl, sess = []\<rparr>
                 else save e tbl uid um gr cid)))))"

text \<open>The view function, from step 1 (lines 70 to 78) on.\<close>

definition log_interaction :: "env \<Rightarrow> request \<Rightarrow> interaction list \<Rightarrow> outcome" where
  "log_interaction e req tbl =
     (let expected_api_key = API_KEY e in
      if \<not> truthy_str expected_api_key
      then \<lparr>result = Inr (jsonify [(''error'', JStr ''Server configuration error: API key not set'')] 500),
            table = tbl, sess = []\<rparr>
      else
        let incoming_api_key = X_API_KEY req in
        if \<not> truthy_str incoming_api_key \<or> incoming_api_key \<noteq> expected_api_key
        then \<lparr>result = Inr (jsonify [(''error'', JStr ''Unauthorized: Invalid API Key'')] 401),
              table = tbl, sess = []\<rparr>
        else parse_and_save e req tbl)"

section \<open>GET /health\<close>

definition health_check :: "env \<Rightarrow> request \<Rightarrow> interaction list \<Rightarrow> outcome" where
  "health_check e req tbl =
     \<lparr>result = Inr (jsonify [(''status'', JStr ''healthy''), (''message'', JStr ''API is running'')] 200),
      table = tbl, sess = []\<rparr>"

section \<open>The service over time\<close>

text \<open>
  The two routes are the only operations the application registers. A history of the
  service is a list of calls, each with the environment it ran in; \<open>serve\<close> gives the
  table after one call, \<open>run\<close> the table after a whole history.
\<close>

datatype call = LogInteraction env request | HealthCheck env request

fun call_env :: "call \<Rightarrow> env" where
  "call_env (LogInteraction e req) = e"
| "call_env (HealthCheck e req) = e"

fun serve :: "interaction list \<Rightarrow> call \<Rightarrow> interaction list" where
  "serve tbl (LogInteraction e req) = table (log_interaction e req tbl)"
| "serve tbl (HealthCheck e req) = table (health_check e req tbl)"

definition run :: "interaction list \<Rightarrow> call list \<Rightarrow> interaction list" where
  "run tbl calls = foldl serve tbl calls"

text \<open>
  The decorators of lines 63 and 119 register the routes when the import reaches them,
  after line 31. A process started in the environment \<open>e0\<close> answers a call only if the
  module body did not raise; otherwise there is no process, and the exception that
  ended the import is all there is.
\<close>

definition process :: "env \<Rightarrow> call \<Rightarrow> interaction list \<Rightarrow> exn + outcome" where
  "process e0 c tbl =
     (case snd (startup e0) of
        Inl ex \<Rightarrow> Inl ex
      | Inr eng \<Rightarrow>
          Inr (case c of
                 LogInteraction e req \<Rightarrow> log_interaction e req tbl
               | HealthCheck e req \<Rightarrow> health_check e req tbl))"

section \<open>Vocabulary of the properties\<close>

text \<open>The database write of a request succeeds when the commit of the one added object does not raise.\<close>

definition write_succeeds :: "env \<Rightarrow> interaction list \<Rightarrow> interaction \<Rightarrow> bool" where
  "write_succeeds e tbl x =
     (case fst (session_commit e tbl (session_add Session x)) of Inl ex \<Rightarrow> False | Inr t \<Rightarrow> True)"

text \<open>
  A parsed body lacks a required field when it is a \<open>dict\<close> in which \<open>userMessage\<close> or
  \<open>gptResponse\<close> is absent or falsy (\<open>None\<close>, the empty string, ...), or when it is a
  falsy value that is no \<open>dict\<close> at all.
\<close>

fun lacks_required :: "json \<Rightarrow> bool" where
  "lacks_required (JObj kvs) =
     (\<not> truthy (dict_get kvs ''userMessage'') \<or> \<not> truthy (dict_get kvs ''gptResponse''))"
| "lacks_required v = (\<not> truthy v)"

text \<open>The keys of the body that the handler reads.\<close>

definition read_keys :: "string list" where
  "read_keys = [''userMessage'', ''gptResponse'', ''userId'', ''conversationId'']"

section \<open>Example inputs\<close>

text \<open>
  The example of the specification: the secret \<open>abc123\<close>, sent in the header, and the
  body \<open>{"userMessage": "hi", "gptResponse": "hello"}\<close>, against a database that works.
\<close>

definition example_env :: env where
  "example_env =
     \<lparr>API_KEY = Some ''abc123'', DATABASE_URL = Some ''postgresql://db/interactions'',
      utcnow = 1000, uuid4 = ''0b9f4a52'',
      url_ok = (\<lambda>s. True), connect_error = None,
      db_fault = (\<lambda>x. None), constraint_msg = ''constraint violated''\<rparr>"

definition example_request :: request where
  "example_request =
     \<lparr>X_API_KEY = Some ''abc123'',
      body = JsonBody (JObj [(''userMessage'', JStr ''hi''), (''gptResponse'', JStr ''hello'')])\<rparr>"

text \<open>The same environment with a database server that refuses every connection.\<close>

definition refused :: "interaction \<Rightarrow> string option" where
  "refused x = Some ''connection refused''"

definition env_db_down :: env where
  "env_db_down = example_env\<lparr>connect_error := Some ''connection refused'', db_fault := refused\<rparr>"

section \<open>How a call unfolds\<close>

lemma insert_row_Inr:
  "insert_row e tbl x = Inr tbl' \<Longrightarrow>
     tbl' = tbl @ [apply_defaults e x]
     \<and> id' (apply_defaults e x) \<notin> set (map id' tbl)"
  by (auto simp: insert_row_def Let_def split: if_splits option.splits)

lemma commit_one:
  "session_commit e tbl \<lparr>new = [x], is_active = True, closed = False\<rparr> =
     (case insert_row e tbl x of
        Inl ex \<Rightarrow> (Inl ex, \<lparr>new = [], is_active = False, closed = False\<rparr>)
      | Inr tbl' \<Rightarrow> (Inr tbl', \<lparr>new = [], is_active = True, closed = False\<rparr>))"
  by (simp add: session_commit_def split: sum.splits)

lemma save_commit_fails:
  "fst (session_commit e tbl (session_add Session (new_interaction e uid um gr cid))) = Inl ex \<Longrightarrow>
   save e tbl uid um gr cid =
     \<lparr>result = Inr (jsonify [(''error'', JStr (''Failed to log interaction: '' @ str_exn ex))] 500),
      table = tbl,
      sess = [\<lparr>new = [], is_active = True, closed = False\<rparr>,
              \<lparr>new = [new_interaction e uid um gr cid], is_active = True, closed = False\<rparr>,
              \<lparr>new = [], is_active = False, closed = False\<rparr>,
              \<lparr>new = [], is_active = True, closed = False\<rparr>,
              \<lparr>new = [], is_active = True, closed = True\<rparr>]\<rparr>"
  by (cases "insert_row e tbl (new_interaction e uid um gr cid)")
     (simp_all add: save_def try_block_def commit_one session_close_def session_rollback_def
        session_add_def Session_def Let_def)

lemma save_commit_ok:
  "fst (session_commit e tbl (session_add Session (new_interaction e uid um gr cid))) = Inr tbl' \<Longrightarrow>
   save e tbl uid um gr cid =
     \<lparr>result =
        (case slice50 um of
           Inl ex \<Rightarrow> Inr (jsonify [(''error'', JStr (''Failed to log interaction: '' @ str_exn ex))] 500)
         | Inr a \<Rightarrow>
             (case slice50 gr of
                Inl ex \<Rightarrow> Inr (jsonify [(''error'', JStr (''Failed to log interaction: '' @ str_exn ex))] 500)
              | Inr b \<Rightarrow> Inr (jsonify [(''status'', JStr ''success''),
                                       (''message'', JStr ''Interaction logged successfully'')] 200))),
      table = tbl',
      sess = (case slice50 um of
           Inl ex \<Rightarrow> [\<lparr>new = [], is_active = True, closed = False\<rparr>,
              \<lparr>new = [new_interaction e uid um gr cid], is_active = True, closed = False\<rparr>,
              \<lparr>new = [], is_active = True, closed = False\<rparr>,
              \<lparr>new = [], is_active = True, closed = False\<rparr>,
              \<lparr>new = [], is_active = True, closed = True\<rparr>]
         | Inr a \<Rightarrow>
             (case slice50 gr of
                Inl ex \<Rightarrow> [\<lparr>new = [], is_active = True, closed = False\<rparr>,
              \<lparr>new = [new_interaction e uid um gr cid], is_active = True, closed = False\<rparr>,
              \<lparr>new = [], is_active = True, closed = False\<rparr>,
              \<lparr>new = [], is_active = True, closed = False\<rparr>,
              \<lparr>new = [], is_active = True, closed = True\<rparr>]
              | Inr b \<Rightarrow> [\<lparr>new = [], is_active = True, closed = False\<rparr>,
              \<lparr>new = [new_interaction e uid um gr cid], is_active = True, closed = False\<rparr>,
              \<lparr>new = [], is_active = True, closed = False\<rparr>,
              \<lparr>new = [], is_active = True, closed = True\<rparr>]))\<rparr>"
  by (cases "insert_row e tbl (new_interaction e uid um gr cid)")
     (simp_all add: save_def try_block_def commit_one session_close_def session_rollback_def
        session_add_def Session_def Let_def split: sum.splits)

text \<open>
  However \<open>save\<close> ends, the session it opened is left by the \<open>try\<close> statement active and
  with nothing pending, and the last thing done to it is the close.
\<close>

lemma save_sess_closed:
  "\<exists>pre. sess (save e tbl uid um gr cid) =
     pre @ [\<lparr>new = [], is_active = True, closed = False\<rparr>,
            \<lparr>new = [], is_active = True, closed = True\<rparr>]"
proof (cases "fst (session_commit e tbl (session_add Session (new_interaction e uid um gr cid)))")
  case (Inl ex)
  show ?thesis unfolding save_commit_fails [OF Inl] by simp
next
  case (Inr tbl')
  show ?thesis unfolding save_commit_ok [OF Inr]
    by (simp split: sum.splits)
qed

lemma save_table:
  "table (save e tbl uid um gr cid) = tbl \<or>
   (table (save e tbl uid um gr cid) = tbl @ [apply_defaults e (new_interaction e uid um gr cid)]
    \<and> id' (apply_defaults e (new_interaction e uid um gr cid)) \<notin> set (map id' tbl))"
proof (cases "fst (session_commit e tbl (session_add Session (new_interaction e uid um gr cid)))")
  case (Inl ex)
  then show ?thesis by (simp add: save_commit_fails)
next
  case (Inr tbl')
  then have "insert_row e tbl (new_interaction e uid um gr cid) = Inr tbl'"
    by (simp add: commit_one session_add_def Session_def split: sum.splits)
  from insert_row_Inr [OF this] Inr show ?thesis
    by (simp add: save_commit_ok)
qed

lemma log_interaction_reaches_save:
  assumes "API_KEY e = Some k" and "k \<noteq> []" and "X_API_KEY req = Some k"
    and "body req = JsonBody (JObj kvs)"
    and "truthy (dict_get kvs ''userMessage'')" and "truthy (dict_get kvs ''gptResponse'')"
  shows "log_interaction e req tbl =
     save e tbl (dict_get kvs ''userId'') (dict_get kvs ''userMessage'')
       (dict_get kvs ''gptResponse'') (dict_get kvs ''conversationId'')"
proof -
  from assms(5) have "kvs \<noteq> []" by (auto simp: dict_get_def)
  with assms show ?thesis
    by (simp add: log_interaction_def parse_and_save_def get_json_def)
qed

text \<open>Every call of the handler either stops before step 4 or goes through \<open>save\<close>.\<close>

lemma log_interaction_cases:
  "(table (log_interaction e req tbl) = tbl \<and> sess (log_interaction e req tbl) = [])
   \<or> (\<exists>uid um gr cid. truthy um \<and> truthy gr \<and> log_interaction e req tbl = save e tbl uid um gr cid)"
  by (auto simp: log_interaction_def parse_and_save_def Let_def split: sum.splits)

text \<open>A 200 from \<open>save\<close> means the commit went through and appended the new row.\<close>

lemma save_status_200:
  assumes "result (save e tbl uid um gr cid) = Inr r" and "status r = 200"
  shows "table (save e tbl uid um gr cid) = tbl @ [apply_defaults e (new_interaction e uid um gr cid)]"
proof (cases "fst (session_commit e tbl (session_add Session (new_interaction e uid um gr cid)))")
  case (Inl ex)
  with assms show ?thesis by (auto simp: save_commit_fails jsonify_def)
next
  case (Inr tbl')
  then have "insert_row e tbl (new_interaction e uid um gr cid) = Inr tbl'"
    by (simp add: commit_one session_add_def Session_def split: sum.splits)
  from insert_row_Inr [OF this] Inr show ?thesis
    by (simp add: save_commit_ok)
qed

lemma apply_defaults_new [simp]:
  "apply_defaults e (new_interaction e uid um gr cid) =
     \<lparr>id' = Some (uuid4 e), user_id = uid, user_message = um, gpt_response = gr,
      conversation_id = cid, timestamp = Some (utcnow e)\<rparr>"
  by (simp add: apply_defaults_def new_interaction_def)

text \<open>One call of the handler leaves the table alone or appends one row.\<close>

lemma log_interaction_step:
  "table (log_interaction e req tbl) = tbl \<or>
   (\<exists>row. table (log_interaction e req tbl) = tbl @ [row]
      \<and> truthy (user_message row) \<and> truthy (gpt_response row)
      \<and> id' row = Some (uuid4 e) \<and> id' row \<notin> set (map id' tbl)
      \<and> timestamp row = Some (utcnow e))"
  using log_interaction_cases [of e req tbl]
proof (elim disjE exE conjE)
  fix uid um gr cid
  assume t: "truthy um" "truthy gr" and eq: "log_interaction e req tbl = save e tbl uid um gr cid"
  from save_table [of e tbl uid um gr cid] t show ?thesis
    unfolding eq by auto
qed simp

lemma serve_step:
  "serve tbl c = tbl \<or>
   (\<exists>row. serve tbl c = tbl @ [row]
      \<and> truthy (user_message row) \<and> truthy (gpt_response row)
      \<and> id' row = Some (uuid4 (call_env c)) \<and> id' row \<notin> set (map id' tbl)
      \<and> timestamp row = Some (utcnow (call_env c)))"
proof (cases c)
  case (LogInteraction e req)
  with log_interaction_step [of e req tbl] show ?thesis by simp
next
  case (HealthCheck e req)
  then show ?thesis by (simp add: health_check_def)
qed

lemma run_snoc: "run tbl (calls @ [c]) = serve (run tbl calls) c"
  by (simp add: run_def)

lemma truthy_nonempty: "truthy v \<Longrightarrow> v \<noteq> JNull \<and> v \<noteq> JStr []"
  by auto

text \<open>
  A 200 is returned only after both checks of the key and both checks of the body, so
  only for a body that is a JSON object.
\<close>

lemma success_needs:
  assumes "result (log_interaction e req tbl) = Inr r" and "status r = 200"
  shows "\<exists>k kvs. API_KEY e = Some k \<and> k \<noteq> [] \<and> X_API_KEY req = Some k
           \<and> body req = JsonBody (JObj kvs)
           \<and> truthy (dict_get kvs ''userMessage'') \<and> truthy (dict_get kvs ''gptResponse'')"
proof -
  from assms obtain k where k: "API_KEY e = Some k" "k \<noteq> []" "X_API_KEY req = Some k"
    by (cases "API_KEY e"; cases "X_API_KEY req")
       (auto simp: log_interaction_def jsonify_def split: if_splits)
  with assms have p: "result (parse_and_save e req tbl) = Inr r"
    by (simp add: log_interaction_def)
  then obtain v where v: "body req = JsonBody v"
    by (cases "body req") (auto simp: parse_and_save_def get_json_def)
  with p assms(2) have t: "truthy v"
    by (auto simp: parse_and_save_def get_json_def jsonify_def split: if_splits)
  with p v obtain kvs where kvs: "v = JObj kvs"
    by (cases v) (auto simp: parse_and_save_def get_json_def)
  with p v t assms(2) have "truthy (dict_get kvs ''userMessage'') \<and> truthy (dict_get kvs ''gptResponse'')"
    by (auto simp: parse_and_save_def get_json_def jsonify_def split: if_splits)
  with k v kvs show ?thesis by blast
qed

text \<open>
  The module body never reads \<open>API_KEY\<close>, and with a connection string that
  \<open>create_engine\<close> accepts it reaches the routes whether or not the server answers.
\<close>

lemma startup_ignores_api_key:
  "startup (e\<lparr>API_KEY := a\<rparr>) = startup e"
  by (cases "DATABASE_URL e") (simp_all add: startup_def create_engine_def create_all_def)

lemma startup_survives_unreachable_database:
  "DATABASE_URL e = Some u \<Longrightarrow> url_ok e u \<Longrightarrow> snd (startup e) = Inr \<lparr>url = u\<rparr>"
  by (simp add: startup_def create_engine_def Let_def split: sum.splits)

section \<open>Properties\<close>

text \<open>
  C1, as the claim states it, fails when the database write fails: the example request,
  with the right key and both texts, against a server that refuses the connection, is
  answered with 500 and no row is persisted.
\<close>

theorem valid_request_db_down_counterexample:
  "API_KEY env_db_down = Some ''abc123'' \<and> X_API_KEY example_request = Some ''abc123''
   \<and> body example_request =
        JsonBody (JObj [(''userMessage'', JStr ''hi''), (''gptResponse'', JStr ''hello'')])
   \<and> log_interaction env_db_down example_request [] =
       \<lparr>result = Inr \<lparr>status = 500,
          payload = Json (JObj [(''error'', JStr ''Failed to log interaction: connection refused'')])\<rparr>,
        table = [],
        sess = [\<lparr>new = [], is_active = True, closed = False\<rparr>,
                \<lparr>new = [\<lparr>id' = None, user_id = JNull, user_message = JStr ''hi'',
                          gpt_response = JStr ''hello'', conversation_id = JNull, timestamp = Some 1000\<rparr>],
                 is_active = True, closed = False\<rparr>,
                \<lparr>new = [], is_active = False, closed = False\<rparr>,
                \<lparr>new = [], is_active = True, closed = False\<rparr>,
                \<lparr>new = [], is_active = True, closed = True\<rparr>]\<rparr>"
  by (simp add: env_db_down_def example_env_def example_request_def refused_def
      log_interaction_def parse_and_save_def get_json_def dict_get_def save_def try_block_def
      new_interaction_def session_commit_def session_add_def Session_def insert_row_def
      apply_defaults_def session_close_def session_rollback_def jsonify_def Let_def)

text \<open>
  C1, amended. A request whose \<open>X-API-KEY\<close> equals the configured secret and whose body
  is a JSON object with non-empty strings \<open>userMessage\<close> and \<open>gptResponse\<close>, when the
  commit of the new object does not raise, appends exactly one row to the table: the two
  texts, \<open>userId\<close> and \<open>conversationId\<close> as read by \<open>dict.get\<close> (\<open>None\<close> when absent), the
  id that \<open>uuid4\<close> returned, which no earlier row has, and the reading of the server's
  clock. The response is 200 with the success body; the session held the new object,
  committed it, and is closed.
\<close>

theorem valid_request_logged:
  assumes "API_KEY e = Some k" and "k \<noteq> []" and "X_API_KEY req = Some k"
    and "body req = JsonBody (JObj kvs)"
    and "map_of kvs ''userMessage'' = Some (JStr um)" and "um \<noteq> []"
    and "map_of kvs ''gptResponse'' = Some (JStr gr)" and "gr \<noteq> []"
    and "write_succeeds e tbl
           (new_interaction e (dict_get kvs ''userId'') (JStr um) (JStr gr) (dict_get kvs ''conversationId''))"
  shows "log_interaction e req tbl =
           \<lparr>result = Inr \<lparr>status = 200,
              payload = Json (JObj [(''status'', JStr ''success''),
                                    (''message'', JStr ''Interaction logged successfully'')])\<rparr>,
            table = tbl @
              [\<lparr>id' = Some (uuid4 e), user_id = dict_get kvs ''userId'', user_message = JStr um,
                gpt_response = JStr gr, conversation_id = dict_get kvs ''conversationId'',
                timestamp = Some (utcnow e)\<rparr>],
            sess = [\<lparr>new = [], is_active = True, closed = False\<rparr>,
                    \<lparr>new = [\<lparr>id' = None, user_id = dict_get kvs ''userId'', user_message = JStr um,
                              gpt_response = JStr gr, conversation_id = dict_get kvs ''conversationId'',
                              timestamp = Some (utcnow e)\<rparr>],
                     is_active = True, closed = False\<rparr>,
                    \<lparr>new = [], is_active = True, closed = False\<rparr>,
                    \<lparr>new = [], is_active = True, closed = True\<rparr>]\<rparr>
         \<and> Some (uuid4 e) \<notin> set (map id' tbl)"
proof -
  let ?x = "new_interaction e (dict_get kvs ''userId'') (JStr um) (JStr gr) (dict_get kvs ''conversationId'')"
  have um: "dict_get kvs ''userMessage'' = JStr um" and gr: "dict_get kvs ''gptResponse'' = JStr gr"
    using assms(5,7) by (simp_all add: dict_get_def)
  have reach: "log_interaction e req tbl =
      save e tbl (dict_get kvs ''userId'') (JStr um) (JStr gr) (dict_get kvs ''conversationId'')"
    using log_interaction_reaches_save [OF assms(1-4), of tbl] assms(6,8) by (simp add: um gr)
  from assms(9) obtain tbl' where c: "fst (session_commit e tbl (session_add Session ?x)) = Inr tbl'"
    by (auto simp: write_succeeds_def split: sum.splits)
  then have ins: "insert_row e tbl ?x = Inr tbl'"
    by (simp add: commit_one session_add_def Session_def split: sum.splits)
  from insert_row_Inr [OF ins]
  have tbl': "tbl' = tbl @ [\<lparr>id' = Some (uuid4 e), user_id = dict_get kvs ''userId'', user_message = JStr um,
       gpt_response = JStr gr, conversation_id = dict_get kvs ''conversationId'',
       timestamp = Some (utcnow e)\<rparr>]" and fresh: "Some (uuid4 e) \<notin> set (map id' tbl)"
    by simp_all
  show ?thesis
    using reach save_commit_ok [OF c] tbl' fresh by (simp add: jsonify_def new_interaction_def)
qed

text \<open>The example of the specification: one row, with null \<open>userId\<close> and \<open>conversationId\<close>.\<close>

theorem valid_request_logged_witness:
  "log_interaction example_env example_request [] =
     \<lparr>result = Inr \<lparr>status = 200,
        payload = Json (JObj [(''status'', JStr ''success''),
                              (''message'', JStr ''Interaction logged successfully'')])\<rparr>,
      table = [\<lparr>id' = Some ''0b9f4a52'', user_id = JNull, user_message = JStr ''hi'',
                gpt_response = JStr ''hello'', conversation_id = JNull, timestamp = Some 1000\<rparr>],
      sess = [\<lparr>new = [], is_active = True, closed = False\<rparr>,
              \<lparr>new = [\<lparr>id' = None, user_id = JNull, user_message = JStr ''hi'',
                        gpt_response = JStr ''hello'', conversation_id = JNull, timestamp = Some 1000\<rparr>],
               is_active = True, closed = False\<rparr>,
              \<lparr>new = [], is_active = True, closed = False\<rparr>,
              \<lparr>new = [], is_active = True, closed = True\<rparr>]\<rparr>"
  using valid_request_logged [of example_env "''abc123''" example_request
      "[(''userMessage'', JStr ''hi''), (''gptResponse'', JStr ''hello'')]" "''hi''" "''hello''" "[]"]
  by (simp add: example_env_def example_request_def write_succeeds_def dict_get_def
      new_interaction_def session_commit_def session_add_def Session_def insert_row_def
      apply_defaults_def)

text \<open>
  C2. With \<open>DATABASE_URL\<close> unset the module body prints its warning and then calls
  \<open>create_engine(None)\<close> outside any \<open>try\<close>: the import ends with \<open>ArgumentError\<close> and
  no engine, so the process does not start.
\<close>

theorem startup_without_database_url:
  "startup (example_env\<lparr>DATABASE_URL := None\<rparr>) =
     ([''WARNING: DATABASE_URL environment variable not set. Database operations will fail.''],
      Inl ArgumentError)"
  by (simp add: startup_def create_engine_def example_env_def)

text \<open>
  C3. With a secret configured, a request whose \<open>X-API-KEY\<close> header is missing or differs
  from the secret is answered with 401 and the body
  \<open>{"error": "Unauthorized: Invalid API Key"}\<close>; the table is unchanged and no session
  is opened.
\<close>

theorem bad_key_gives_401:
  assumes "API_KEY e = Some k" and "k \<noteq> []" and "X_API_KEY req \<noteq> Some k"
  shows "log_interaction e req tbl =
     \<lparr>result = Inr \<lparr>status = 401,
        payload = Json (JObj [(''error'', JStr ''Unauthorized: Invalid API Key'')])\<rparr>,
      table = tbl, sess = []\<rparr>"
  using assms by (simp add: log_interaction_def jsonify_def)

text \<open>A request without the header, and one with a wrong key.\<close>

theorem bad_key_gives_401_witness:
  "log_interaction example_env (example_request\<lparr>X_API_KEY := None\<rparr>) [] =
     \<lparr>result = Inr \<lparr>status = 401,
        payload = Json (JObj [(''error'', JStr ''Unauthorized: Invalid API Key'')])\<rparr>,
      table = [], sess = []\<rparr>
   \<and> log_interaction example_env (example_request\<lparr>X_API_KEY := Some ''abc124''\<rparr>) [] =
     \<lparr>result = Inr \<lparr>status = 401,
        payload = Json (JObj [(''error'', JStr ''Unauthorized: Invalid API Key'')])\<rparr>,
      table = [], sess = []\<rparr>"
  using bad_key_gives_401 [of example_env "''abc123''" "example_request\<lparr>X_API_KEY := None\<rparr>" "[]"]
    bad_key_gives_401 [of example_env "''abc123''" "example_request\<lparr>X_API_KEY := Some ''abc124''\<rparr>" "[]"]
  by (simp add: example_env_def example_request_def)

text \<open>
  Where the validation of the body works: with the right key, a body that parses to a
  JSON object in which \<open>userMessage\<close> or \<open>gptResponse\<close> is missing or falsy, or to a falsy
  value, is answered by the handler with 400 and a JSON error body, and a body the
  parser rejects is answered with 400 by the framework; the table is unchanged and no
  session is opened.
\<close>

lemma lacking_field_gives_400:
  assumes "API_KEY e = Some k" and "k \<noteq> []" and "X_API_KEY req = Some k"
    and "body req = JsonBody v" and "lacks_required v"
  shows "log_interaction e req tbl =
           \<lparr>result = Inr \<lparr>status = 400,
              payload = Json (JObj [(''error'',
                JStr (if truthy v
                      then quoted ''userMessage'' @ '' and '' @ quoted ''gptResponse'' @ '' are required''
                      else ''No JSON data provided''))])\<rparr>,
            table = tbl, sess = []\<rparr>"
proof (cases "truthy v")
  case False
  with assms(1-4) show ?thesis
    by (simp add: log_interaction_def parse_and_save_def get_json_def jsonify_def)
next
  case True
  with assms(5) obtain kvs where v: "v = JObj kvs"
    and f: "\<not> truthy (dict_get kvs ''userMessage'') \<or> \<not> truthy (dict_get kvs ''gptResponse'')"
    by (cases v) auto
  from True v have "kvs \<noteq> []" by simp
  with assms(1-4) v f show ?thesis
    by (auto simp: log_interaction_def parse_and_save_def get_json_def jsonify_def)
qed

lemma unparsable_body_gives_400:
  assumes "API_KEY e = Some k" and "k \<noteq> []" and "X_API_KEY req = Some k"
    and "body req = Unparsable"
  shows "log_interaction e req tbl = \<lparr>result = Inl BadRequest, table = tbl, sess = []\<rparr>
         \<and> flask_response (result (log_interaction e req tbl)) = \<lparr>status = 400, payload = ErrorPage\<rparr>"
  using assms by (simp add: log_interaction_def parse_and_save_def get_json_def)

text \<open>
  A truthy body that is no \<open>dict\<close> passes the test of line 82 and reaches \<open>data.get\<close> at
  line 86, outside any \<open>try\<close>: the handler raises \<open>AttributeError\<close> and the framework
  answers 500 with its error page.
\<close>

lemma non_object_body_raises:
  assumes "API_KEY e = Some k" and "k \<noteq> []" and "X_API_KEY req = Some k"
    and "body req = JsonBody v" and "truthy v" and "\<forall>kvs. v \<noteq> JObj kvs"
  shows "log_interaction e req tbl =
           \<lparr>result = Inl (AttributeError (quoted (type_name v) @ '' object has no attribute '' @ quoted ''get'')),
            table = tbl, sess = []\<rparr>
         \<and> flask_response (result (log_interaction e req tbl)) = \<lparr>status = 500, payload = ErrorPage\<rparr>"
  using assms by (cases v) (simp_all add: log_interaction_def parse_and_save_def get_json_def)

text \<open>
  C4. With the right key, the body \<open>[1]\<close>, which is valid JSON without a \<open>userMessage\<close>
  field, and the body \<open>NaN\<close>, which is not valid JSON but parses to a \<open>float\<close>, both make
  the handler raise \<open>AttributeError\<close>: the answer is 500 with the framework's error
  page, not 400 with a JSON error body. No row is persisted.
\<close>

theorem non_object_body_gives_500:
  "API_KEY example_env = Some ''abc123'' \<and> X_API_KEY example_request = Some ''abc123''
   \<and> log_interaction example_env (example_request\<lparr>body := JsonBody (JArr [JInt 1])\<rparr>) []
     = \<lparr>result = Inl (AttributeError (quoted ''list'' @ '' object has no attribute '' @ quoted ''get'')),
        table = [], sess = []\<rparr>
   \<and> flask_response (result (log_interaction example_env (example_request\<lparr>body := JsonBody (JArr [JInt 1])\<rparr>) []))
     = \<lparr>status = 500, payload = ErrorPage\<rparr>
   \<and> log_interaction example_env (example_request\<lparr>body := JsonBody (JFloat NaN)\<rparr>) []
     = \<lparr>result = Inl (AttributeError (quoted ''float'' @ '' object has no attribute '' @ quoted ''get'')),
        table = [], sess = []\<rparr>
   \<and> flask_response (result (log_interaction example_env (example_request\<lparr>body := JsonBody (JFloat NaN)\<rparr>) []))
     = \<lparr>status = 500, payload = ErrorPage\<rparr>"
  by (simp add: example_env_def example_request_def log_interaction_def parse_and_save_def
      get_json_def)

text \<open>Read off the outcomes above: the status of both answers is 500.\<close>

theorem non_object_body_gives_500_witness:
  "status (flask_response (result (log_interaction example_env
      (example_request\<lparr>body := JsonBody (JArr [JInt 1])\<rparr>) []))) = 500
   \<and> status (flask_response (result (log_interaction example_env
      (example_request\<lparr>body := JsonBody (JFloat NaN)\<rparr>) []))) = 500"
  using non_object_body_gives_500 by simp

text \<open>
  C5. When a request passes the checks of the key and of the body and the commit raises,
  the handler returns 500 with the body \<open>{"error": "Failed to log interaction: ..."}\<close>
  and the table is what it was before. The session goes through five states: fresh;
  holding the new object; inactive, its transaction failed and the object gone, after
  the commit that raised; active again with nothing pending, after the rollback of the
  \<open>except\<close> branch, which is the state in which the 500 is built; closed. Whatever the
  request, a session that was opened leaves the \<open>try\<close> statement active with nothing
  pending and is closed last.
\<close>

theorem failed_write_rolled_back:
  assumes "API_KEY e = Some k" and "k \<noteq> []" and "X_API_KEY req = Some k"
    and "body req = JsonBody (JObj kvs)"
    and "truthy (dict_get kvs ''userMessage'')" and "truthy (dict_get kvs ''gptResponse'')"
    and "fst (session_commit e tbl (session_add Session
           (new_interaction e (dict_get kvs ''userId'') (dict_get kvs ''userMessage'')
              (dict_get kvs ''gptResponse'') (dict_get kvs ''conversationId'')))) = Inl ex"
  shows "log_interaction e req tbl =
           \<lparr>result = Inr \<lparr>status = 500,
              payload = Json (JObj [(''error'', JStr (''Failed to log interaction: '' @ str_exn ex))])\<rparr>,
            table = tbl,
            sess = [\<lparr>new = [], is_active = True, closed = False\<rparr>,
                    \<lparr>new = [\<lparr>id' = None, user_id = dict_get kvs ''userId'',
                              user_message = dict_get kvs ''userMessage'',
                              gpt_response = dict_get kvs ''gptResponse'',
                              conversation_id = dict_get kvs ''conversationId'',
                              timestamp = Some (utcnow e)\<rparr>],
                     is_active = True, closed = False\<rparr>,
                    \<lparr>new = [], is_active = False, closed = False\<rparr>,
                    \<lparr>new = [], is_active = True, closed = False\<rparr>,
                    \<lparr>new = [], is_active = True, closed = True\<rparr>]\<rparr>
         \<and> (\<forall>e' req' tbl'. sess (log_interaction e' req' tbl') = [] \<or>
               (\<exists>pre. sess (log_interaction e' req' tbl') =
                  pre @ [\<lparr>new = [], is_active = True, closed = False\<rparr>,
                         \<lparr>new = [], is_active = True, closed = True\<rparr>]))"
proof -
  have "log_interaction e req tbl =
           \<lparr>result = Inr \<lparr>status = 500,
              payload = Json (JObj [(''error'', JStr (''Failed to log interaction: '' @ str_exn ex))])\<rparr>,
            table = tbl,
            sess = [\<lparr>new = [], is_active = True, closed = False\<rparr>,
                    \<lparr>new = [\<lparr>id' = None, user_id = dict_get kvs ''userId'',
                              user_message = dict_get kvs ''userMessage'',
                              gpt_response = dict_get kvs ''gptResponse'',
                              conversation_id = dict_get kvs ''conversationId'',
                              timestamp = Some (utcnow e)\<rparr>],
                     is_active = True, closed = False\<rparr>,
                    \<lparr>new = [], is_active = False, closed = False\<rparr>,
                    \<lparr>new = [], is_active = True, closed = False\<rparr>,
                    \<lparr>new = [], is_active = True, closed = True\<rparr>]\<rparr>"
    using log_interaction_reaches_save [OF assms(1-6), of tbl] save_commit_fails [OF assms(7)]
    by (simp add: jsonify_def new_interaction_def)
  moreover have "sess (log_interaction e' req' tbl') = [] \<or>
               (\<exists>pre. sess (log_interaction e' req' tbl') =
                  pre @ [\<lparr>new = [], is_active = True, closed = False\<rparr>,
                         \<lparr>new = [], is_active = True, closed = True\<rparr>])" for e' req' tbl'
    using log_interaction_cases [of e' req' tbl'] save_sess_closed by metis
  ultimately show ?thesis by blast
qed

text \<open>The example request against a server that refuses the connection, over a table of one row.\<close>

theorem failed_write_rolled_back_witness:
  "log_interaction env_db_down example_request
     [\<lparr>id' = Some ''5d1c77e0'', user_id = JNull, user_message = JStr ''hey'',
       gpt_response = JStr ''hello'', conversation_id = JNull, timestamp = Some 999\<rparr>] =
     \<lparr>result = Inr \<lparr>status = 500,
        payload = Json (JObj [(''error'', JStr ''Failed to log interaction: connection refused'')])\<rparr>,
      table = [\<lparr>id' = Some ''5d1c77e0'', user_id = JNull, user_message = JStr ''hey'',
       gpt_response = JStr ''hello'', conversation_id = JNull, timestamp = Some 999\<rparr>],
      sess = [\<lparr>new = [], is_active = True, closed = False\<rparr>,
              \<lparr>new = [\<lparr>id' = None, user_id = JNull, user_message = JStr ''hi'',
                        gpt_response = JStr ''hello'', conversation_id = JNull, timestamp = Some 1000\<rparr>],
               is_active = True, closed = False\<rparr>,
              \<lparr>new = [], is_active = False, closed = False\<rparr>,
              \<lparr>new = [], is_active = True, closed = False\<rparr>,
              \<lparr>new = [], is_active = True, closed = True\<rparr>]\<rparr>"
  using failed_write_rolled_back [of env_db_down "''abc123''" example_request
      "[(''userMessage'', JStr ''hi''), (''gptResponse'', JStr ''hello'')]"
      "[\<lparr>id' = Some ''5d1c77e0'', user_id = JNull, user_message = JStr ''hey'',
       gpt_response = JStr ''hello'', conversation_id = JNull, timestamp = Some 999\<rparr>]"
      "DatabaseError ''connection refused''"]
  by (simp add: env_db_down_def example_env_def example_request_def refused_def dict_get_def
      new_interaction_def session_commit_def session_add_def Session_def insert_row_def
      apply_defaults_def)

text \<open>
  C6. After any history of calls, started on any table, the table is the old table
  followed by the rows the calls appended: no call changes or removes a row, so the id
  and every other column of a row stay as written. Each appended row has truthy
  \<open>user_message\<close> and \<open>gpt_response\<close> (neither \<open>None\<close> nor the empty string), and the id
  and the timestamp that \<open>uuid4\<close> and the server's clock gave in the call that wrote it.
  If the ids of the old table were distinct, so are the ids afterwards.
\<close>

theorem persisted_rows_invariant:
  "\<exists>rows. run tbl calls = tbl @ rows
     \<and> (\<forall>r \<in> set rows.
            truthy (user_message r) \<and> user_message r \<noteq> JNull \<and> user_message r \<noteq> JStr []
          \<and> truthy (gpt_response r) \<and> gpt_response r \<noteq> JNull \<and> gpt_response r \<noteq> JStr []
          \<and> (\<exists>c \<in> set calls. id' r = Some (uuid4 (call_env c))
                \<and> timestamp r = Some (utcnow (call_env c))))
     \<and> (distinct (map id' tbl) \<longrightarrow> distinct (map id' (run tbl calls)))"
proof (induction calls rule: rev_induct)
  case Nil
  show ?case by (simp add: run_def)
next
  case (snoc c calls)
  then obtain rows where run: "run tbl calls = tbl @ rows"
    and rows: "\<forall>r \<in> set rows.
            truthy (user_message r) \<and> user_message r \<noteq> JNull \<and> user_message r \<noteq> JStr []
          \<and> truthy (gpt_response r) \<and> gpt_response r \<noteq> JNull \<and> gpt_response r \<noteq> JStr []
          \<and> (\<exists>c \<in> set calls. id' r = Some (uuid4 (call_env c))
                \<and> timestamp r = Some (utcnow (call_env c)))"
    and dist: "distinct (map id' tbl) \<longrightarrow> distinct (map id' (run tbl calls))"
    by blast
  from serve_step [of "run tbl calls" c]
  show ?case
  proof (elim disjE exE conjE)
    assume same: "serve (run tbl calls) c = run tbl calls"
    have "run tbl (calls @ [c]) = run tbl calls"
      by (simp only: run_snoc same)
    then have "run tbl (calls @ [c]) = tbl @ rows"
      by (simp only: run)
    moreover from rows have "\<forall>r \<in> set rows.
            truthy (user_message r) \<and> user_message r \<noteq> JNull \<and> user_message r \<noteq> JStr []
          \<and> truthy (gpt_response r) \<and> gpt_response r \<noteq> JNull \<and> gpt_response r \<noteq> JStr []
          \<and> (\<exists>c' \<in> set (calls @ [c]). id' r = Some (uuid4 (call_env c'))
                \<and> timestamp r = Some (utcnow (call_env c')))"
      by auto
    moreover from dist have "distinct (map id' tbl) \<longrightarrow> distinct (map id' (run tbl (calls @ [c])))"
      by (simp add: run_snoc same)
    ultimately show ?thesis by blast
  next
    fix row
    assume app: "serve (run tbl calls) c = run tbl calls @ [row]"
      and um: "truthy (user_message row)" and gr: "truthy (gpt_response row)"
      and i: "id' row = Some (uuid4 (call_env c))"
      and fresh: "id' row \<notin> set (map id' (run tbl calls))"
      and ts: "timestamp row = Some (utcnow (call_env c))"
    have "run tbl (calls @ [c]) = run tbl calls @ [row]"
      by (simp only: run_snoc app)
    then have "run tbl (calls @ [c]) = tbl @ (rows @ [row])"
      by (simp only: run append_assoc)
    moreover from rows um gr i ts truthy_nonempty [OF um] truthy_nonempty [OF gr]
    have "\<forall>r \<in> set (rows @ [row]).
            truthy (user_message r) \<and> user_message r \<noteq> JNull \<and> user_message r \<noteq> JStr []
          \<and> truthy (gpt_response r) \<and> gpt_response r \<noteq> JNull \<and> gpt_response r \<noteq> JStr []
          \<and> (\<exists>c' \<in> set (calls @ [c]). id' r = Some (uuid4 (call_env c'))
                \<and> timestamp r = Some (utcnow (call_env c')))"
      by auto
    moreover from dist fresh
    have "distinct (map id' tbl) \<longrightarrow> distinct (map id' (run tbl (calls @ [c])))"
      by (simp add: run_snoc app)
    ultimately show ?thesis by blast
  qed
qed

text \<open>
  Four calls on the empty table: the third repeats the id of the first and is refused by
  the primary key, the health check writes nothing, two rows with distinct ids remain.
\<close>

theorem persisted_rows_invariant_witness:
  "run [] [LogInteraction example_env example_request,
           HealthCheck example_env example_request,
           LogInteraction (example_env\<lparr>utcnow := 1001\<rparr>) example_request,
           LogInteraction (example_env\<lparr>utcnow := 1002, uuid4 := ''5d1c77e0''\<rparr>) example_request]
     = [\<lparr>id' = Some ''0b9f4a52'', user_id = JNull, user_message = JStr ''hi'',
         gpt_response = JStr ''hello'', conversation_id = JNull, timestamp = Some 1000\<rparr>,
        \<lparr>id' = Some ''5d1c77e0'', user_id = JNull, user_message = JStr ''hi'',
         gpt_response = JStr ''hello'', conversation_id = JNull, timestamp = Some 1002\<rparr>]
   \<and> distinct (map id' (run [] [LogInteraction example_env example_request,
           HealthCheck example_env example_request,
           LogInteraction (example_env\<lparr>utcnow := 1001\<rparr>) example_request,
           LogInteraction (example_env\<lparr>utcnow := 1002, uuid4 := ''5d1c77e0''\<rparr>) example_request]))"
proof -
  let ?calls = "[LogInteraction example_env example_request,
           HealthCheck example_env example_request,
           LogInteraction (example_env\<lparr>utcnow := 1001\<rparr>) example_request,
           LogInteraction (example_env\<lparr>utcnow := 1002, uuid4 := ''5d1c77e0''\<rparr>) example_request]"
  have r: "run [] ?calls
     = [\<lparr>id' = Some ''0b9f4a52'', user_id = JNull, user_message = JStr ''hi'',
         gpt_response = JStr ''hello'', conversation_id = JNull, timestamp = Some 1000\<rparr>,
        \<lparr>id' = Some ''5d1c77e0'', user_id = JNull, user_message = JStr ''hi'',
         gpt_response = JStr ''hello'', conversation_id = JNull, timestamp = Some 1002\<rparr>]"
    by (simp add: run_def example_env_def example_request_def health_check_def
      log_interaction_def parse_and_save_def get_json_def dict_get_def save_def try_block_def
      new_interaction_def session_commit_def session_add_def Session_def insert_row_def
      apply_defaults_def session_close_def session_rollback_def jsonify_def Let_def)
  from persisted_rows_invariant [of "[]" ?calls]
  have "distinct (map id' (run [] ?calls))" by auto
  with r show ?thesis by blast
qed

text \<open>
  C7. With no secret configured (\<open>API_KEY\<close> unset or empty) every request is answered
  with 500 and the body \<open>{"error": "Server configuration error: API key not set"}\<close>,
  whatever its header and body; the table is unchanged. The header is not looked at:
  the answer is 500, not 401, also for a request without a key.
\<close>

theorem missing_secret_gives_500:
  "API_KEY e = None \<or> API_KEY e = Some [] \<Longrightarrow>
   log_interaction e req tbl =
     \<lparr>result = Inr \<lparr>status = 500,
        payload = Json (JObj [(''error'', JStr ''Server configuration error: API key not set'')])\<rparr>,
      table = tbl, sess = []\<rparr>"
  by (auto simp: log_interaction_def jsonify_def)

text \<open>The example request, and the same request without its key, with \<open>API_KEY\<close> unset.\<close>

theorem missing_secret_gives_500_witness:
  "log_interaction (example_env\<lparr>API_KEY := None\<rparr>) example_request [] =
     \<lparr>result = Inr \<lparr>status = 500,
        payload = Json (JObj [(''error'', JStr ''Server configuration error: API key not set'')])\<rparr>,
      table = [], sess = []\<rparr>
   \<and> log_interaction (example_env\<lparr>API_KEY := None\<rparr>) (example_request\<lparr>X_API_KEY := None\<rparr>) [] =
     \<lparr>result = Inr \<lparr>status = 500,
        payload = Json (JObj [(''error'', JStr ''Server configuration error: API key not set'')])\<rparr>,
      table = [], sess = []\<rparr>"
  using missing_secret_gives_500 [of "example_env\<lparr>API_KEY := None\<rparr>" example_request "[]"]
    missing_secret_gives_500 [of "example_env\<lparr>API_KEY := None\<rparr>" "example_request\<lparr>X_API_KEY := None\<rparr>" "[]"]
  by (simp add: example_env_def)

text \<open>
  The view function of \<open>GET /health\<close> itself answers every request, in every
  environment and over every table, with status 200 and the body
  \<open>{"status": "healthy", "message": "API is running"}\<close>; it reads no header, opens no
  session and leaves the table as it was. So does a process whose import went through.
\<close>

lemma health_check_static:
  "flask_response (result (health_check e req tbl)) =
     \<lparr>status = 200,
      payload = Json (JObj [(''status'', JStr ''healthy''), (''message'', JStr ''API is running'')])\<rparr>
   \<and> table (health_check e req tbl) = tbl
   \<and> sess (health_check e req tbl) = []"
  by (simp add: health_check_def jsonify_def)

lemma health_check_once_started:
  "snd (startup e0) = Inr eng \<Longrightarrow>
   process e0 (HealthCheck e req) tbl =
     Inr \<lparr>result = Inr \<lparr>status = 200,
             payload = Json (JObj [(''status'', JStr ''healthy''), (''message'', JStr ''API is running'')])\<rparr>,
          table = tbl, sess = []\<rparr>"
  by (simp add: process_def health_check_def jsonify_def)

text \<open>
  C8. A process started with \<open>DATABASE_URL\<close> unset does not answer \<open>GET /health\<close>: the
  import ends with \<open>ArgumentError\<close> at \<open>create_engine(None)\<close>, before the route is
  registered, so there is no 200, whatever the request and with the secret configured.
\<close>

theorem health_check_needs_database_url:
  "process (example_env\<lparr>DATABASE_URL := None\<rparr>)
     (HealthCheck (example_env\<lparr>DATABASE_URL := None\<rparr>) example_request) []
   = Inl ArgumentError"
  by (simp add: process_def startup_def create_engine_def example_env_def)

text \<open>So the call ends in an exception, not in an outcome of the view function.\<close>

theorem health_check_needs_database_url_witness:
  "isl (process (example_env\<lparr>DATABASE_URL := None\<rparr>)
     (HealthCheck (example_env\<lparr>DATABASE_URL := None\<rparr>) example_request) [])"
  using health_check_needs_database_url by simp

text \<open>
  C9. Take a request answered with 200, and a second request with the same key whose
  body agrees with the first on the four keys the handler reads and differs in any
  other way, for instance by a \<open>timestamp\<close> field. The handler does the same for both:
  same response, same table, same session. The row written carries the reading of the
  server's clock and the values of the four keys, nothing else of the body.
\<close>

theorem client_timestamp_ignored:
  assumes "result (log_interaction e req tbl) = Inr r" and "status r = 200"
    and "body req = JsonBody (JObj kvs)"
    and "X_API_KEY req' = X_API_KEY req" and "body req' = JsonBody (JObj kvs')"
    and "\<forall>k \<in> set read_keys. map_of kvs' k = map_of kvs k"
  shows "log_interaction e req' tbl = log_interaction e req tbl
       \<and> table (log_interaction e req tbl) = tbl @
           [\<lparr>id' = Some (uuid4 e), user_id = dict_get kvs ''userId'',
             user_message = dict_get kvs ''userMessage'', gpt_response = dict_get kvs ''gptResponse'',
             conversation_id = dict_get kvs ''conversationId'', timestamp = Some (utcnow e)\<rparr>]"
proof -
  from success_needs [OF assms(1,2)] assms(3)
  obtain k where k: "API_KEY e = Some k" "k \<noteq> []" "X_API_KEY req = Some k"
    and t: "truthy (dict_get kvs ''userMessage'')" "truthy (dict_get kvs ''gptResponse'')"
    by auto
  from assms(6) have same: "dict_get kvs' ''userMessage'' = dict_get kvs ''userMessage''"
      "dict_get kvs' ''gptResponse'' = dict_get kvs ''gptResponse''"
      "dict_get kvs' ''userId'' = dict_get kvs ''userId''"
      "dict_get kvs' ''conversationId'' = dict_get kvs ''conversationId''"
    by (simp_all add: read_keys_def dict_get_def)
  have a: "log_interaction e req tbl =
      save e tbl (dict_get kvs ''userId'') (dict_get kvs ''userMessage'')
        (dict_get kvs ''gptResponse'') (dict_get kvs ''conversationId'')"
    using log_interaction_reaches_save [OF k assms(3) t] .
  have k': "X_API_KEY req' = Some k" using k(3) assms(4) by simp
  have t': "truthy (dict_get kvs' ''userMessage'')" "truthy (dict_get kvs' ''gptResponse'')"
    using t by (simp_all add: same)
  have b: "log_interaction e req' tbl =
      save e tbl (dict_get kvs ''userId'') (dict_get kvs ''userMessage'')
        (dict_get kvs ''gptResponse'') (dict_get kvs ''conversationId'')"
    using log_interaction_reaches_save [OF k(1,2) k' assms(5) t', of tbl] by (simp add: same)
  from assms(1,2) have "table (log_interaction e req tbl) = tbl @
      [apply_defaults e (new_interaction e (dict_get kvs ''userId'') (dict_get kvs ''userMessage'')
        (dict_get kvs ''gptResponse'') (dict_get kvs ''conversationId''))]"
    unfolding a by (rule save_status_200)
  with a b show ?thesis by simp
qed

text \<open>The example request with and without a \<open>timestamp\<close> of 1999 in its body.\<close>

theorem client_timestamp_ignored_witness:
  "log_interaction example_env
     (example_request\<lparr>body := JsonBody (JObj [(''timestamp'', JStr ''1999-12-31T23:59:59''),
        (''userMessage'', JStr ''hi''), (''gptResponse'', JStr ''hello'')])\<rparr>) []
   = log_interaction example_env example_request []
   \<and> table (log_interaction example_env example_request []) =
       [\<lparr>id' = Some ''0b9f4a52'', user_id = JNull, user_message = JStr ''hi'',
         gpt_response = JStr ''hello'', conversation_id = JNull, timestamp = Some 1000\<rparr>]"
proof -
  have ok: "result (log_interaction example_env example_request []) =
      Inr \<lparr>status = 200, payload = Json (JObj [(''status'', JStr ''success''),
                              (''message'', JStr ''Interaction logged successfully'')])\<rparr>"
    by (simp add: example_env_def example_request_def
      log_interaction_def parse_and_save_def get_json_def dict_get_def save_def try_block_def
      new_interaction_def session_commit_def session_add_def Session_def insert_row_def
      apply_defaults_def session_close_def session_rollback_def jsonify_def Let_def)
  from client_timestamp_ignored [OF ok, of
      "[(''userMessage'', JStr ''hi''), (''gptResponse'', JStr ''hello'')]"
      "example_request\<lparr>body := JsonBody (JObj [(''timestamp'', JStr ''1999-12-31T23:59:59''),
        (''userMessage'', JStr ''hi''), (''gptResponse'', JStr ''hello'')])\<rparr>"
      "[(''timestamp'', JStr ''1999-12-31T23:59:59''),
        (''userMessage'', JStr ''hi''), (''gptResponse'', JStr ''hello'')]"]
  show ?thesis
    by (simp add: example_env_def example_request_def read_keys_def dict_get_def)
qed

text \<open>
  C10. With the right key, a body that parses to a falsy value (\<open>{}\<close>, \<open>null\<close>, \<open>false\<close>,
  \<open>0\<close>, \<open>""\<close>, \<open>[]\<close>) is answered with 400 and the body
  \<open>{"error": "No JSON data provided"}\<close>; the table is unchanged.
\<close>

theorem falsy_body_gives_400:
  assumes "API_KEY e = Some k" and "k \<noteq> []" and "X_API_KEY req = Some k"
    and "body req = JsonBody v" and "\<not> truthy v"
  shows "log_interaction e req tbl =
     \<lparr>result = Inr \<lparr>status = 400,
        payload = Json (JObj [(''error'', JStr ''No JSON data provided'')])\<rparr>,
      table = tbl, sess = []\<rparr>"
  using assms by (simp add: log_interaction_def parse_and_save_def get_json_def jsonify_def)

text \<open>The bodies \<open>{}\<close> and \<open>0\<close>.\<close>

theorem falsy_body_gives_400_witness:
  "log_interaction example_env (example_request\<lparr>body := JsonBody (JObj [])\<rparr>) [] =
     \<lparr>result = Inr \<lparr>status = 400,
        payload = Json (JObj [(''error'', JStr ''No JSON data provided'')])\<rparr>,
      table = [], sess = []\<rparr>
   \<and> log_interaction example_env (example_request\<lparr>body := JsonBody (JInt 0)\<rparr>) [] =
     \<lparr>result = Inr \<lparr>status = 400,
        payload = Json (JObj [(''error'', JStr ''No JSON data provided'')])\<rparr>,
      table = [], sess = []\<rparr>"
  using falsy_body_gives_400 [of example_env "''abc123''" "example_request\<lparr>body := JsonBody (JObj [])\<rparr>" "JObj []" "[]"]
    falsy_body_gives_400 [of example_env "''abc123''" "example_request\<lparr>body := JsonBody (JInt 0)\<rparr>" "JInt 0" "[]"]
  by (simp add: example_env_def example_request_def)

end
